theory Spec2Isabelle
  imports Complex_Main "HOL-Library.Multiset"
begin

section \<open>Numbers and exceptions\<close>

text \<open>
  The numbers of a rate structure (JSON numbers) are embedded as rationals. Python's
  \<open>float('inf')\<close>, which the rate structures use as the limit of an open tier, is a
  value of its own.
\<close>

datatype limit = Finite rat | Infinity

text \<open>\<open>min(remaining, tier_limit)\<close> where the second argument may be \<open>float('inf')\<close>.\<close>

fun min_limit :: "rat \<Rightarrow> limit \<Rightarrow> rat" where
  "min_limit r Infinity = r"
| "min_limit r (Finite b) = min r b"

text \<open>
  The exceptions the modelled code can raise: \<open>AttributeError c a\<close> is the read of a
  missing attribute \<open>a\<close> of the class \<open>c\<close>.
\<close>

datatype py_exception =
    AttributeError string string
  | TypeError
  | ZeroDivisionError

text \<open>
  An endpoint answers with a body and a status code. The body of an error answer is a
  message of the endpoint or \<open>str(e)\<close> of the exception its \<open>except\<close> branch caught.
\<close>

datatype error_body = ErrorMessage string | ErrorOf py_exception

type_synonym 'a response = "(error_body \<times> nat) + ('a \<times> nat)"

text \<open>
  The amounts of the bills are Python floats. The float operations the aggregation uses
  (addition, division, multiplication and \<open>round(x, ndigits)\<close>) are an argument of
  the model, a float being the rational it denotes.
\<close>

record arith =
  fadd :: "rat \<Rightarrow> rat \<Rightarrow> rat"
  fdiv :: "rat \<Rightarrow> rat \<Rightarrow> rat"
  fmul :: "rat \<Rightarrow> rat \<Rightarrow> rat"
  fround :: "rat \<Rightarrow> nat \<Rightarrow> rat"

text \<open>
  Rounding to the nearest integer, a tie going to the even one, and to \<open>ndigits\<close>
  decimal places.
\<close>

definition round_half_even :: "rat \<Rightarrow> int" where
  "round_half_even x =
     (let f = \<lfloor>x\<rfloor>; d = x - of_int f
      in if d < 1 / 2 then f else if 1 / 2 < d then f + 1 else if even f then f else f + 1)"

definition round_decimal :: "rat \<Rightarrow> nat \<Rightarrow> rat" where
  "round_decimal x ndigits = of_int (round_half_even (x * 10 ^ ndigits)) / 10 ^ ndigits"

text \<open>\<open>exact_arith\<close>: the operations without any rounding of the results.\<close>

definition exact_arith :: arith where
  "exact_arith = \<lparr>fadd = (+), fdiv = (/), fmul = (*), fround = round_decimal\<rparr>"

text \<open>
  \<open>double_arith\<close>: the operations of IEEE 754 binary64, each the exact result rounded to
  the nearest double, a tie going to the even significand. \<open>ilog2 n x\<close> is the
  exponent \<open>e\<close> with \<open>2 ^ e \<le> x < 2 ^ (e + 1)\<close>, found in at most \<open>n\<close> steps;
  \<open>round_to_double\<close> covers the range of the normal doubles. \<open>round(x, 1)\<close> of a
  double is the double nearest to the decimal rounding of its exact value.
\<close>

fun ilog2 :: "nat \<Rightarrow> rat \<Rightarrow> int" where
  "ilog2 0 x = 0"
| "ilog2 (Suc n) x =
     (if 2 \<le> x then ilog2 n (x / 2) + 1 else if x < 1 then ilog2 n (x * 2) - 1 else 0)"

definition pow2 :: "int \<Rightarrow> rat" where
  "pow2 e = (if 0 \<le> e then 2 ^ nat e else 1 / 2 ^ nat (- e))"

definition round_to_double :: "rat \<Rightarrow> rat" where
  "round_to_double x =
     (if x = 0 then 0
      else let ulp = pow2 (ilog2 2200 \<bar>x\<bar> - 52)
           in of_int (round_half_even (x / ulp)) * ulp)"

definition double_arith :: arith where
  "double_arith =
     \<lparr>fadd = (\<lambda>a b. round_to_double (a + b)),
      fdiv = (\<lambda>a b. round_to_double (a / b)),
      fmul = (\<lambda>a b. round_to_double (a * b)),
      fround = (\<lambda>x n. round_to_double (round_decimal x n))\<rparr>"

section \<open>models/rate.py\<close>

text \<open>
  \<open>structure_json\<close> is a JSON object; a key that may be missing is an option field,
  since the code reads every key with \<open>.get(key, default)\<close>. The records of this
  section are the structures whose fields are numbers.
\<close>

record tier =
  up_to :: "limit option"
  price :: "rat option"

record rate_json =
  fixed_charge :: "rat option"
  tiers :: "tier list option"

text \<open>
  Of the columns of \<open>RateStructure\<close> only \<open>structure_json\<close> is read by
  \<open>calculate_bill\<close>. \<open>None\<close> is a falsy value of the column (null or the empty object).
\<close>

record rate_structure =
  structure_json :: "rate_json option"

text \<open>\<open>tier.get('up_to', float('inf'))\<close> and \<open>tier.get('price', 0)\<close>.\<close>

definition tier_limit :: "tier \<Rightarrow> limit" where
  "tier_limit t = (case up_to t of None \<Rightarrow> Infinity | Some l \<Rightarrow> l)"

definition tier_rate :: "tier \<Rightarrow> rat" where
  "tier_rate t = (case price t of None \<Rightarrow> 0 | Some p \<Rightarrow> p)"

text \<open>\<open>structure.get('fixed_charge', 0)\<close> and \<open>structure.get('tiers', [])\<close>.\<close>

definition get_fixed_charge :: "rate_json \<Rightarrow> rat" where
  "get_fixed_charge structure = (case fixed_charge structure of None \<Rightarrow> 0 | Some f \<Rightarrow> f)"

definition get_tiers :: "rate_json \<Rightarrow> tier list" where
  "get_tiers structure = (case tiers structure of None \<Rightarrow> [] | Some ts \<Rightarrow> ts)"

text \<open>
  The \<open>for tier in tiers\<close> loop of \<open>calculate_bill\<close>, with its two variables
  \<open>total_charge\<close> and \<open>remaining_consumption\<close>; \<open>break\<close> returns the total so far.
\<close>

fun bill_loop :: "tier list \<Rightarrow> rat \<Rightarrow> rat \<Rightarrow> rat" where
  "bill_loop [] total_charge remaining_consumption = total_charge"
| "bill_loop (t # ts) total_charge remaining_consumption =
     (if remaining_consumption \<le> 0 then total_charge
      else let tier_consumption = min_limit remaining_consumption (tier_limit t)
           in bill_loop ts (total_charge + tier_consumption * tier_rate t)
                (remaining_consumption - tier_consumption))"

definition calculate_bill :: "rate_structure \<Rightarrow> rat \<Rightarrow> rat" where
  "calculate_bill self consumption =
     (case structure_json self of
        None \<Rightarrow> 0
      | Some structure \<Rightarrow>
          bill_loop (get_tiers structure) (get_fixed_charge structure) consumption)"

subsection \<open>Fields that are not numbers\<close>




















subsection \<open>The rate calculator as the specification words it\<close>

text \<open>
  The specification's \<open>computeBill\<close>, written from its own words to be compared with
  \<open>calculate_bill\<close>: a tier bound is a threshold of cumulative consumption, the chargeable
  quantity of a tier is \<open>min(remaining, tier_bound - cumulative_consumed_so_far)\<close>, and a
  structure that breaks the invariant is a configuration error.
\<close>

datatype error = ConfigurationError

text \<open>Finite bounds strictly increase and an unbounded tier has no successor.\<close>

fun valid_bounds :: "limit list \<Rightarrow> bool" where
  "valid_bounds [] = True"
| "valid_bounds [l] = True"
| "valid_bounds (Infinity # l # ls) = False"
| "valid_bounds (Finite a # Finite b # ls) = (a < b \<and> valid_bounds (Finite b # ls))"
| "valid_bounds (Finite a # Infinity # ls) = valid_bounds (Infinity # ls)"

definition valid_structure :: "rate_structure \<Rightarrow> bool" where
  "valid_structure S =
     (case structure_json S of
        None \<Rightarrow> False
      | Some js \<Rightarrow>
          0 \<le> get_fixed_charge js
          \<and> list_all (\<lambda>t. 0 \<le> tier_rate t) (get_tiers js)
          \<and> valid_bounds (map tier_limit (get_tiers js)))"

definition fixed_charge_of :: "rate_structure \<Rightarrow> rat" where
  "fixed_charge_of S = (case structure_json S of None \<Rightarrow> 0 | Some js \<Rightarrow> get_fixed_charge js)"

definition tiers_of :: "rate_structure \<Rightarrow> tier list" where
  "tiers_of S = (case structure_json S of None \<Rightarrow> [] | Some js \<Rightarrow> get_tiers js)"

fun minus_limit :: "limit \<Rightarrow> rat \<Rightarrow> limit" where
  "minus_limit Infinity c = Infinity"
| "minus_limit (Finite b) c = Finite (b - c)"

fun spec_loop :: "tier list \<Rightarrow> rat \<Rightarrow> rat \<Rightarrow> rat \<Rightarrow> rat" where
  "spec_loop [] total_charge remaining consumed = total_charge"
| "spec_loop (t # ts) total_charge remaining consumed =
     (if remaining \<le> 0 then total_charge
      else let q = min_limit remaining (minus_limit (tier_limit t) consumed)
           in spec_loop ts (total_charge + q * tier_rate t) (remaining - q) (consumed + q))"

definition computeBill_spec :: "rat \<Rightarrow> rate_structure \<Rightarrow> error + rat" where
  "computeBill_spec consumption S =
     (if valid_structure S
      then Inr (spec_loop (tiers_of S) (fixed_charge_of S) consumption 0)
      else Inl ConfigurationError)"

subsection \<open>Sample structures\<close>

text \<open>The sample structure of \<open>api/rates.py\<close> (\<open>optimise_rates\<close>).\<close>

definition sample_structure :: rate_structure where
  "sample_structure =
     \<lparr>structure_json = Some \<lparr>fixed_charge = Some 25, tiers = Some
        [\<lparr>up_to = Some (Finite 5000), price = Some (85 / 10000)\<rparr>,
         \<lparr>up_to = Some (Finite 15000), price = Some (95 / 10000)\<rparr>,
         \<lparr>up_to = Some Infinity, price = Some (105 / 10000)\<rparr>]\<rparr>\<rparr>"

text \<open>A structure whose first bound is negative.\<close>

definition negative_bound_structure :: rate_structure where
  "negative_bound_structure =
     \<lparr>structure_json = Some \<lparr>fixed_charge = Some 10, tiers = Some
        [\<lparr>up_to = Some (Finite (- 5)), price = Some 1\<rparr>,
         \<lparr>up_to = None, price = Some 0\<rparr>]\<rparr>\<rparr>"

text \<open>Every finite bound of the structure is at least 0.\<close>

definition nonneg_bounds :: "rate_structure \<Rightarrow> bool" where
  "nonneg_bounds S =
     list_all (\<lambda>t. case tier_limit t of Finite b \<Rightarrow> 0 \<le> b | Infinity \<Rightarrow> True) (tiers_of S)"



section \<open>api/analytics.py\<close>

text \<open>The columns of \<open>Dataset\<close> and \<open>Bill\<close> that \<open>get_kpis\<close> reads.\<close>

record dataset =
  dataset_id :: int
  status :: string

record bill =
  bill_dataset_id :: int
  account_id :: string
  amount :: rat
  paid_flag :: bool

definition ACTIVE :: string where
  "ACTIVE = ''active''"

text \<open>The JSON object of the response, one field per key.\<close>

record kpis =
  total_revenue :: rat
  collection_rate :: rat
  customer_count :: nat
  coverage_ratio :: rat
  revenue_change :: rat
  collection_change :: rat
  customer_change :: rat
  coverage_change :: rat

definition get_mock_kpis :: kpis where
  "get_mock_kpis =
     \<lparr>total_revenue = 2450000, collection_rate = 942 / 10, customer_count = 12500,
      coverage_ratio = 115 / 100, revenue_change = 52 / 10, collection_change = 18 / 10,
      customer_change = 21 / 10, coverage_change = 0\<rparr>"

text \<open>
  Python's \<open>sum\<close> over floats, the plain loop of CPython before 3.12: it starts from
  the integer 0, which the first addition leaves as it is, and adds from left to right.
\<close>

fun py_sum :: "arith \<Rightarrow> rat list \<Rightarrow> rat" where
  "py_sum ar [] = 0"
| "py_sum ar (x # xs) = foldl (fadd ar) x xs"

text \<open>Float division: a zero divisor raises.\<close>

definition py_div :: "arith \<Rightarrow> rat \<Rightarrow> rat \<Rightarrow> py_exception + rat" where
  "py_div ar a b = (if b = 0 then Inl ZeroDivisionError else Inr (fdiv ar a b))"

text \<open>
  The value of line 36 is a float or the integer 0, and \<open>round\<close> leaves an integer as
  it is.
\<close>

datatype number = IntNum int | FloatNum rat

fun py_round :: "arith \<Rightarrow> number \<Rightarrow> nat \<Rightarrow> rat" where
  "py_round ar (IntNum i) ndigits = of_int i"
| "py_round ar (FloatNum x) ndigits = fround ar x ndigits"

text \<open>Line 36, \<open>(total_paid / total_revenue * 100) if total_revenue > 0 else 0\<close>.\<close>

definition collection_rate_of :: "arith \<Rightarrow> rat \<Rightarrow> rat \<Rightarrow> py_exception + number" where
  "collection_rate_of ar total_paid revenue =
     (if 0 < revenue
      then (case py_div ar total_paid revenue of
              Inl e \<Rightarrow> Inl e
            | Inr q \<Rightarrow> Inr (FloatNum (fmul ar q 100)))
      else Inr (IntNum 0))"

text \<open>Lines 33 to 56: the totals and the body of the response, from the bills.\<close>

definition calculate_kpis :: "arith \<Rightarrow> bill list \<Rightarrow> py_exception + kpis" where
  "calculate_kpis ar bills =
     (let revenue = py_sum ar (map amount bills);
          total_paid = py_sum ar (map amount (filter paid_flag bills));
          customers = card (set (map account_id bills))
      in case collection_rate_of ar total_paid revenue of
           Inl e \<Rightarrow> Inl e
         | Inr rate \<Rightarrow>
             Inr \<lparr>total_revenue = revenue, collection_rate = py_round ar rate 1,
                  customer_count = customers, coverage_ratio = 115 / 100,
                  revenue_change = 52 / 10, collection_change = 18 / 10,
                  customer_change = 21 / 10, coverage_change = 0\<rparr>)"

text \<open>
  \<open>get_kpis\<close> takes what \<open>Dataset.query\<close> and \<open>Bill.query\<close> evaluate to: the rows of
  the table in the order the database yields them, or \<open>None\<close> when the class has no
  attribute \<open>query\<close> and the read raises \<open>AttributeError\<close>. The model classes of this
  repository derive from the plain \<open>declarative_base()\<close> of \<open>models/base.py\<close>, which
  gives them no \<open>query\<close>: for the repository as it is, both arguments are \<open>None\<close>.
  Every exception is caught by the \<open>except\<close> branch and answered with status 500.
\<close>

definition get_kpis ::
  "arith \<Rightarrow> dataset list option \<Rightarrow> bill list option \<Rightarrow> kpis response" where
  "get_kpis ar dataset_query bill_query =
     (case dataset_query of
        None \<Rightarrow> Inl (ErrorOf (AttributeError ''Dataset'' ''query''), 500)
      | Some datasets \<Rightarrow>
          (case find (\<lambda>d. status d = ACTIVE) datasets of
             None \<Rightarrow> Inr (get_mock_kpis, 200)
           | Some active_dataset \<Rightarrow>
               (case bill_query of
                  None \<Rightarrow> Inl (ErrorOf (AttributeError ''Bill'' ''query''), 500)
                | Some bill_table \<Rightarrow>
                    let bills =
                      filter (\<lambda>b. bill_dataset_id b = dataset_id active_dataset) bill_table
                    in if bills = [] then Inr (get_mock_kpis, 200)
                       else (case calculate_kpis ar bills of
                               Inl e \<Rightarrow> Inl (ErrorOf e, 500)
                             | Inr body \<Rightarrow> Inr (body, 200)))))"

text \<open>The body of a response; none when it is an error.\<close>

definition kpis_of :: "kpis response \<Rightarrow> kpis option" where
  "kpis_of r = (case r of Inl e \<Rightarrow> None | Inr (body, code) \<Rightarrow> Some body)"

text \<open>The bills of the specification's example: 100 paid, 200 unpaid.\<close>

definition example_datasets :: "dataset list" where
  "example_datasets = [\<lparr>dataset_id = 1, status = ''active''\<rparr>]"

definition example_bills :: "bill list" where
  "example_bills =
     [\<lparr>bill_dataset_id = 1, account_id = ''A-1'', amount = 100, paid_flag = True\<rparr>,
      \<lparr>bill_dataset_id = 1, account_id = ''A-2'', amount = 200, paid_flag = False\<rparr>]"


definition other_dataset_bills :: "bill list" where
  "other_dataset_bills =
     [\<lparr>bill_dataset_id = 2, account_id = ''B-1'', amount = 50, paid_flag = True\<rparr>]"


section \<open>models/base.py and models/user.py\<close>

text \<open>The values a column holds; a \<open>DateTime\<close> is a count of microseconds.\<close>

datatype pyval = PyNone | PyInt int | PyStr string | PyBool bool | PyDateTime int

definition py_opt_str :: "string option \<Rightarrow> pyval" where
  "py_opt_str v = (case v of None \<Rightarrow> PyNone | Some s \<Rightarrow> PyStr s)"

definition ADMIN :: string where
  "ADMIN = ''admin''"

definition ANALYST :: string where
  "ANALYST = ''analyst''"

definition VIEWER :: string where
  "VIEWER = ''viewer''"

record user =
  user_id :: int
  user_created_at :: int
  user_updated_at :: int
  email :: string
  password_hash :: string
  role :: string
  first_name :: "string option"
  last_name :: "string option"
  is_active :: bool

text \<open>\<open>dict.get(key, default)\<close>.\<close>

definition dict_get :: "('k \<rightharpoonup> 'v) \<Rightarrow> 'k \<Rightarrow> 'v \<Rightarrow> 'v" where
  "dict_get d k dflt = (case d k of None \<Rightarrow> dflt | Some v \<Rightarrow> v)"

definition role_hierarchy :: "string \<rightharpoonup> nat" where
  "role_hierarchy = [VIEWER \<mapsto> 1, ANALYST \<mapsto> 2, ADMIN \<mapsto> 3]"

definition has_permission :: "user \<Rightarrow> string \<Rightarrow> bool" where
  "has_permission self required_role =
     (dict_get role_hierarchy (role self) 0 \<ge> dict_get role_hierarchy required_role 0)"

text \<open>The ordinal \<open>has_permission\<close> reads for a role: \<open>role_hierarchy.get(role, 0)\<close>.\<close>

definition role_ordinal :: "string \<Rightarrow> nat" where
  "role_ordinal r = dict_get role_hierarchy r 0"

text \<open>The three roles of \<open>UserRole\<close>.\<close>

definition recognized :: "string \<Rightarrow> bool" where
  "recognized r = (r = VIEWER \<or> r = ANALYST \<or> r = ADMIN)"

text \<open>
  \<open>BaseModel.to_dict\<close> on a user: one entry per column of the \<open>users\<close> table, the
  columns of the base model first. A dictionary is a list of entries in insertion order.
\<close>

definition user_columns :: "string list" where
  "user_columns = [''id'', ''created_at'', ''updated_at'', ''email'', ''password_hash'',
     ''role'', ''first_name'', ''last_name'', ''is_active'']"

definition user_getattr :: "user \<Rightarrow> string \<Rightarrow> pyval" where
  "user_getattr self name =
     (if name = ''id'' then PyInt (user_id self)
      else if name = ''created_at'' then PyDateTime (user_created_at self)
      else if name = ''updated_at'' then PyDateTime (user_updated_at self)
      else if name = ''email'' then PyStr (email self)
      else if name = ''password_hash'' then PyStr (password_hash self)
      else if name = ''role'' then PyStr (role self)
      else if name = ''first_name'' then py_opt_str (first_name self)
      else if name = ''last_name'' then py_opt_str (last_name self)
      else if name = ''is_active'' then PyBool (is_active self)
      else PyNone)"

definition base_to_dict :: "user \<Rightarrow> (string \<times> pyval) list" where
  "base_to_dict self = map (\<lambda>column. (column, user_getattr self column)) user_columns"

text \<open>\<open>data.pop(key, None)\<close>: the entry of the key, if any, is removed.\<close>

definition dict_pop :: "'k \<Rightarrow> ('k \<times> 'v) list \<Rightarrow> ('k \<times> 'v) list" where
  "dict_pop k d = filter (\<lambda>kv. fst kv \<noteq> k) d"

definition to_dict :: "user \<Rightarrow> (string \<times> pyval) list" where
  "to_dict self = dict_pop ''password_hash'' (base_to_dict self)"

section \<open>models/audit.py and api/admin.py\<close>

datatype json =
    JNull
  | JBool bool
  | JNum rat
  | JStr string
  | JArr "json list"
  | JObj "(string \<times> json) list"

record audit =
  audit_id :: int
  audit_created_at :: int
  audit_updated_at :: int
  action :: string
  resource_type :: "string option"
  resource_id :: "string option"
  description :: "string option"
  payload_json :: "json option"
  ip_address :: "string option"
  user_agent :: "string option"
  audit_user_id :: "int option"

text \<open>The database: the rows of the two tables, in the order the database yields them.\<close>

record db =
  users :: "user list"
  audits :: "audit list"

text \<open>
  The \<open>resource_id\<close> argument of \<open>log_action\<close> is a number or a string; the code keeps
  \<open>str(resource_id) if resource_id else None\<close>.
\<close>

datatype res_id = IdInt int | IdStr string

fun string_of_nat :: "nat \<Rightarrow> string" where
  "string_of_nat n =
     (if n < 10 then [''0123456789'' ! n]
      else string_of_nat (n div 10) @ [''0123456789'' ! (n mod 10)])"

declare string_of_nat.simps [simp del]

definition py_str :: "res_id \<Rightarrow> string" where
  "py_str r =
     (case r of
        IdStr s \<Rightarrow> s
      | IdInt i \<Rightarrow> if i < 0 then ''-'' @ string_of_nat (nat (- i)) else string_of_nat (nat i))"

definition truthy :: "res_id option \<Rightarrow> bool" where
  "truthy r = (case r of None \<Rightarrow> False | Some (IdInt i) \<Rightarrow> i \<noteq> 0 | Some (IdStr s) \<Rightarrow> s \<noteq> [])"

text \<open>
  \<open>log_action\<close> takes the session (the database), the primary key \<open>new_id\<close> the
  database gives the row when it is committed (no code of the repository assigns one),
  and the clock read by the column default \<open>datetime.utcnow\<close>; it returns the database
  after \<open>commit\<close> and the entry.
\<close>

definition log_action ::
  "db \<Rightarrow> int \<Rightarrow> int \<Rightarrow> string \<Rightarrow> int option \<Rightarrow> string option \<Rightarrow> res_id option
     \<Rightarrow> string option \<Rightarrow> json option \<Rightarrow> string option \<Rightarrow> string option \<Rightarrow> db \<times> audit" where
  "log_action db_session new_id now act uid rtype rid descr payload ip agent =
     (let audit_entry =
            \<lparr>audit_id = new_id,
             audit_created_at = now, audit_updated_at = now,
             action = act, resource_type = rtype,
             resource_id = (if truthy rid then Some (py_str (the rid)) else None),
             description = descr, payload_json = payload,
             ip_address = ip, user_agent = agent, audit_user_id = uid\<rparr>
      in (db_session\<lparr>audits := audits db_session @ [audit_entry]\<rparr>, audit_entry))"

text \<open>One element of the list \<open>get_audit_log\<close> returns.\<close>

record audit_view =
  view_id :: int
  view_action :: string
  view_user_email :: string
  view_timestamp :: int
  view_description :: "string option"
  view_ip_address :: "string option"

text \<open>
  \<open>order_by(Audit.created_at.desc())\<close>: rows by decreasing \<open>created_at\<close>; the query
  names no second key, so rows of equal \<open>created_at\<close> stay in the order the database
  yields them.
\<close>

definition order_by_created_at_desc :: "audit list \<Rightarrow> audit list" where
  "order_by_created_at_desc rows = sort_key (\<lambda>e. - audit_created_at e) rows"

text \<open>\<open>Audit.query.order_by(Audit.created_at.desc()).limit(100).all()\<close>.\<close>

definition recent_entries :: "audit list \<Rightarrow> audit list" where
  "recent_entries rows = take 100 (order_by_created_at_desc rows)"

text \<open>\<open>entry.user\<close>: the user row the foreign key \<open>user_id\<close> points to.\<close>

definition entry_user :: "user list \<Rightarrow> audit \<Rightarrow> user option" where
  "entry_user user_table entry =
     (case audit_user_id entry of
        None \<Rightarrow> None
      | Some uid \<Rightarrow> find (\<lambda>u. user_id u = uid) user_table)"

definition audit_entry_view :: "user list \<Rightarrow> audit \<Rightarrow> audit_view" where
  "audit_entry_view user_table entry =
     \<lparr>view_id = audit_id entry, view_action = action entry,
      view_user_email =
        (case entry_user user_table entry of Some u \<Rightarrow> email u | None \<Rightarrow> ''System''),
      view_timestamp = audit_created_at entry,
      view_description = description entry,
      view_ip_address = ip_address entry\<rparr>"

text \<open>
  \<open>get_audit_log\<close> takes what \<open>User.query\<close> and \<open>Audit.query\<close> evaluate to (the rows,
  or \<open>None\<close> when the class has no attribute \<open>query\<close>, as for the classes of this
  repository) and the identity of the token. It answers the message with status 403, the
  entries with status 200, or the exception with status 500.
\<close>

definition get_audit_log ::
  "user list option \<Rightarrow> audit list option \<Rightarrow> int \<Rightarrow> audit_view list response" where
  "get_audit_log user_query audit_query current_user_id =
     (case user_query of
        None \<Rightarrow> Inl (ErrorOf (AttributeError ''User'' ''query''), 500)
      | Some user_table \<Rightarrow>
          (case find (\<lambda>u. user_id u = current_user_id) user_table of
             None \<Rightarrow> Inl (ErrorMessage ''Admin access required'', 403)
           | Some current_user \<Rightarrow>
               if role current_user \<noteq> ADMIN
               then Inl (ErrorMessage ''Admin access required'', 403)
               else (case audit_query of
                       None \<Rightarrow> Inl (ErrorOf (AttributeError ''Audit'' ''query''), 500)
                     | Some rows \<Rightarrow>
                         Inr (map (audit_entry_view user_table) (recent_entries rows),
                              200))))"

section \<open>Sample data\<close>

text \<open>
  A user whose role is none of the three, an administrator, and a database in which
  \<open>log_action\<close> ran twice within the same clock tick.
\<close>

definition guest_user :: user where
  "guest_user =
     \<lparr>user_id = 7, user_created_at = 0, user_updated_at = 0, email = ''guest@example.org'',
      password_hash = ''$2b$12$abc'', role = ''guest'', first_name = None, last_name = None,
      is_active = True\<rparr>"

definition admin_user :: user where
  "admin_user =
     \<lparr>user_id = 1, user_created_at = 0, user_updated_at = 0, email = ''admin@example.org'',
      password_hash = ''$2b$12$xyz'', role = ''admin'', first_name = None, last_name = None,
      is_active = True\<rparr>"

definition initial_db :: db where
  "initial_db = \<lparr>users = [admin_user], audits = []\<rparr>"





section \<open>Rate calculator: results\<close>

lemma bill_loop_nonpos:
  "remaining \<le> 0 \<Longrightarrow> bill_loop ts acc remaining = acc"
  by (cases ts) simp_all

lemma bill_loop_lower:
  assumes "list_all (\<lambda>t. 0 \<le> tier_rate t) ts"
    and "list_all (\<lambda>t. case tier_limit t of Finite b \<Rightarrow> 0 \<le> b | Infinity \<Rightarrow> True) ts"
  shows "acc \<le> bill_loop ts acc remaining"
  using assms
proof (induction ts arbitrary: acc remaining)
  case Nil
  then show ?case by simp
next
  case (Cons t ts)
  show ?case
  proof (cases "remaining \<le> 0")
    case True
    then show ?thesis by simp
  next
    case False
    let ?q = "min_limit remaining (tier_limit t)"
    have q: "0 \<le> ?q"
      using False Cons.prems(2) by (cases "tier_limit t") auto
    have r: "0 \<le> tier_rate t"
      using Cons.prems(1) by simp
    have "acc \<le> acc + ?q * tier_rate t"
      using q r by simp
    also have "\<dots> \<le> bill_loop ts (acc + ?q * tier_rate t) (remaining - ?q)"
      using Cons.IH Cons.prems by simp
    finally show ?thesis
      using False by (simp add: Let_def)
  qed
qed

text \<open>
  C1. The claim: for a valid structure and a non-negative consumption, each tier is
  charged \<open>min(remaining, tier_bound - cumulative_consumed_so_far)\<close>, the bounds being
  thresholds of cumulative consumption. \<open>calculate_bill\<close> charges
  \<open>min(remaining, up_to)\<close>: it reads \<open>up_to\<close> as the width of the tier. On the sample
  structure of \<open>api/rates.py\<close> (bounds 5000, 15000, unbounded) and a consumption of 18000
  the code returns 191 (5000, then 13000 in the second tier), where the claimed
  computation gives 194 (5000, 10000, 3000).
\<close>

theorem calculate_bill_sample_18000:
  "calculate_bill sample_structure 18000 = 191
   \<and> computeBill_spec 18000 sample_structure = Inr 194"
  by (simp add: calculate_bill_def get_tiers_def get_fixed_charge_def tier_limit_def tier_rate_def computeBill_spec_def valid_structure_def tiers_of_def
      fixed_charge_of_def sample_structure_def Let_def)









text \<open>
  C8. The claim: for every valid structure and every consumption \<open>c \<ge> 0\<close> the bill is
  at least the fixed charge. The invariant of a valid structure (increasing bounds, an
  unbounded tier last, prices and fixed charge not negative) admits a negative first
  bound, and there the code charges a negative quantity: fixed charge 10, bill 5.
\<close>

theorem calculate_bill_negative_bound_counterexample:
  "valid_structure negative_bound_structure \<and> (0::rat) \<le> 3
   \<and> calculate_bill negative_bound_structure 3 = 5
   \<and> fixed_charge_of negative_bound_structure = 10"
  by (simp add: calculate_bill_def get_tiers_def get_fixed_charge_def tier_limit_def tier_rate_def valid_structure_def fixed_charge_of_def
      negative_bound_structure_def Let_def)

text \<open>
  C8, as amended: for every valid structure whose finite bounds are not negative and
  every consumption \<open>c \<ge> 0\<close>, the bill is at least the fixed charge, and the bill of
  consumption 0 is the fixed charge.
\<close>

theorem calculate_bill_at_least_fixed:
  assumes "valid_structure S" and "nonneg_bounds S" and "0 \<le> c"
  shows "fixed_charge_of S \<le> calculate_bill S c \<and> calculate_bill S 0 = fixed_charge_of S"
proof -
  from assms(1) obtain js where js: "structure_json S = Some js"
    by (auto simp: valid_structure_def split: option.splits)
  have rates: "list_all (\<lambda>t. 0 \<le> tier_rate t) (get_tiers js)"
    using assms(1) js by (simp add: valid_structure_def)
  have bounds:
    "list_all (\<lambda>t. case tier_limit t of Finite b \<Rightarrow> 0 \<le> b | Infinity \<Rightarrow> True) (get_tiers js)"
    using assms(2) js by (simp add: nonneg_bounds_def tiers_of_def)
  have "get_fixed_charge js \<le> bill_loop (get_tiers js) (get_fixed_charge js) c"
    by (rule bill_loop_lower [OF rates bounds])
  moreover have "bill_loop (get_tiers js) (get_fixed_charge js) 0 = get_fixed_charge js"
    by (simp add: bill_loop_nonpos)
  ultimately show ?thesis
    using js by (simp add: calculate_bill_def fixed_charge_of_def)
qed

theorem calculate_bill_at_least_fixed_witness:
  "valid_structure sample_structure \<and> nonneg_bounds sample_structure \<and> (0::rat) \<le> 18000
   \<and> fixed_charge_of sample_structure \<le> calculate_bill sample_structure 18000
   \<and> calculate_bill sample_structure 0 = fixed_charge_of sample_structure"
proof -
  have v: "valid_structure sample_structure"
    by (simp add: valid_structure_def sample_structure_def get_tiers_def get_fixed_charge_def
        tier_limit_def tier_rate_def)
  have n: "nonneg_bounds sample_structure"
    by (simp add: nonneg_bounds_def tiers_of_def sample_structure_def get_tiers_def
        tier_limit_def)
  show ?thesis
    using v n calculate_bill_at_least_fixed [OF v n, of 18000] by simp
qed

section \<open>KPI aggregation: results\<close>







text \<open>
  Where the class \<open>Dataset\<close> has no attribute \<open>query\<close>, as in this repository, the
  first statement of \<open>get_kpis\<close> raises and the answer is the status 500, whatever the
  bills.
\<close>

lemma get_kpis_without_query:
  "get_kpis ar None bill_query
     = Inl (ErrorOf (AttributeError ''Dataset'' ''query''), 500)"
  by (simp add: get_kpis_def)

text \<open>
  C3. The claim: on an empty sequence of bill records the aggregation returns total
  revenue 0, collection rate 0 and customer count 0. \<open>get_kpis\<close> has a guard for the
  empty list, \<open>if not bills: return jsonify(get_mock_kpis())\<close>: none of the three values
  is 0.
\<close>

theorem get_kpis_empty_counterexample:
  "get_kpis exact_arith (Some example_datasets) (Some []) = Inr (get_mock_kpis, 200)
   \<and> total_revenue get_mock_kpis \<noteq> 0
   \<and> collection_rate get_mock_kpis \<noteq> 0
   \<and> customer_count get_mock_kpis \<noteq> 0"
  by (simp add: get_kpis_def example_datasets_def ACTIVE_def get_mock_kpis_def)

text \<open>
  C3, as amended: on an empty sequence of bill records, that is when the queries are
  answered and the bill query yields no bill of the active dataset, \<open>get_kpis\<close> answers
  with status 200 and the demonstration snapshot of \<open>get_mock_kpis\<close>: total revenue
  2450000, collection rate 94.2, customer count 12500. Where the class \<open>Dataset\<close> or
  \<open>Bill\<close> has no attribute \<open>query\<close>, as in this repository, the answer is the
  \<open>AttributeError\<close> with status 500.
\<close>

theorem get_kpis_empty_mock:
  assumes "find (\<lambda>d. status d = ACTIVE) datasets = Some active_dataset"
    and "filter (\<lambda>b. bill_dataset_id b = dataset_id active_dataset) bill_table = []"
  shows "get_kpis ar (Some datasets) (Some bill_table) = Inr (get_mock_kpis, 200)
   \<and> total_revenue get_mock_kpis = 2450000
   \<and> collection_rate get_mock_kpis = 942 / 10
   \<and> customer_count get_mock_kpis = 12500
   \<and> get_kpis ar None bill_query = Inl (ErrorOf (AttributeError ''Dataset'' ''query''), 500)
   \<and> get_kpis ar (Some datasets) None = Inl (ErrorOf (AttributeError ''Bill'' ''query''), 500)"
  using assms by (simp add: get_kpis_def get_mock_kpis_def)

theorem get_kpis_empty_mock_witness:
  "find (\<lambda>d. status d = ACTIVE) example_datasets = Some \<lparr>dataset_id = 1, status = ''active''\<rparr>
   \<and> other_dataset_bills \<noteq> []
   \<and> filter (\<lambda>b. bill_dataset_id b = 1) other_dataset_bills = []
   \<and> get_kpis double_arith (Some example_datasets) (Some other_dataset_bills)
       = Inr (get_mock_kpis, 200)"
proof -
  have h1: "find (\<lambda>d. status d = ACTIVE) example_datasets
      = Some \<lparr>dataset_id = 1, status = ''active''\<rparr>"
    by (simp add: example_datasets_def ACTIVE_def)
  have h2: "filter (\<lambda>b. bill_dataset_id b
      = dataset_id \<lparr>dataset_id = 1, status = ''active''\<rparr>) other_dataset_bills = []"
    by (simp add: other_dataset_bills_def)
  have h3: "other_dataset_bills \<noteq> []"
    by (simp add: other_dataset_bills_def)
  have h4: "filter (\<lambda>b. bill_dataset_id b = 1) other_dataset_bills = []"
    by (simp add: other_dataset_bills_def)
  show ?thesis
    using h1 h3 h4 get_kpis_empty_mock [OF h1 h2, of double_arith, THEN conjunct1] by blast
qed



text \<open>
  In double arithmetic, the bills 100 (paid) and 200 (unpaid) give the rate 33.3 of the
  specification's example, and 3 paid of 2000 the rate 0.1.
\<close>

lemma get_kpis_double_examples:
  "map_option collection_rate
     (kpis_of (get_kpis double_arith (Some example_datasets) (Some example_bills)))
     = Some (round_to_double (333 / 10))
   \<and> fround double_arith (fmul double_arith (fdiv double_arith 3 2000) 100) 1
     = round_to_double (1 / 10)"
  by code_simp






section \<open>Access policy, serialization and audit ledger: results\<close>

text \<open>
  C4. The claim: viewer, analyst and admin have the ordinals 1, 2 and 3, a principal is
  authorized iff its ordinal is at least the required one, and a principal with an
  unrecognized role (ordinal 0) is refused whatever the required role. The required role
  is read with the same default 0: against an unrecognized required role the comparison
  is \<open>0 >= 0\<close> and the principal is authorized.
\<close>

theorem has_permission_unrecognized_counterexample:
  "\<not> recognized (role guest_user) \<and> has_permission guest_user ''superuser''"
  by (simp add: role_hierarchy_def dict_get_def VIEWER_def ANALYST_def ADMIN_def recognized_def has_permission_def
      guest_user_def)

text \<open>
  C4, as amended: viewer, analyst and admin have the ordinals 1, 2 and 3;
  \<open>has_permission\<close> holds iff the ordinal of the principal's role is at least the
  ordinal of the required role; a principal with an unrecognized role has ordinal 0 and
  is refused for every recognized required role, and authorized for every unrecognized
  one.
\<close>

theorem has_permission_ordinals:
  "role_ordinal VIEWER = 1 \<and> role_ordinal ANALYST = 2 \<and> role_ordinal ADMIN = 3
   \<and> has_permission u r = (role_ordinal r \<le> role_ordinal (role u))
   \<and> (\<not> recognized (role u) \<longrightarrow>
         role_ordinal (role u) = 0
         \<and> (recognized r \<longrightarrow> \<not> has_permission u r)
         \<and> (\<not> recognized r \<longrightarrow> has_permission u r))"
  by (auto simp: role_hierarchy_def dict_get_def VIEWER_def ANALYST_def ADMIN_def recognized_def role_ordinal_def
      has_permission_def)

theorem has_permission_ordinals_witness:
  "\<not> recognized (role guest_user) \<and> recognized ADMIN \<and> \<not> has_permission guest_user ADMIN
   \<and> \<not> recognized ''superuser'' \<and> has_permission guest_user ''superuser''
   \<and> role_ordinal (role guest_user) = 0"
proof -
  have g: "\<not> recognized (role guest_user)"
    by (simp add: recognized_def VIEWER_def ANALYST_def ADMIN_def guest_user_def)
  have a: "recognized ADMIN"
    by (simp add: recognized_def)
  have s: "\<not> recognized ''superuser''"
    by (simp add: recognized_def VIEWER_def ANALYST_def ADMIN_def)
  show ?thesis
    using g a s has_permission_ordinals [of guest_user ADMIN]
      has_permission_ordinals [of guest_user "''superuser''"]
    by blast
qed

text \<open>
  C10. For every user, \<open>to_dict\<close> has no \<open>password_hash\<close> entry, and it does not
  depend on the stored hash: two users that differ in the hash only have the same
  dictionary. The other eight columns are all there.
\<close>

theorem to_dict_excludes_password_hash:
  "''password_hash'' \<notin> fst ` set (to_dict u)
   \<and> to_dict (u\<lparr>password_hash := h\<rparr>) = to_dict u
   \<and> map fst (to_dict u) = [''id'', ''created_at'', ''updated_at'', ''email'', ''role'',
        ''first_name'', ''last_name'', ''is_active'']"
  by (simp add: to_dict_def dict_pop_def base_to_dict_def user_columns_def user_getattr_def)

text \<open>
  C5. The claim: whatever payload the caller passes, the committed audit record holds
  no password material or other sensitive key. \<open>log_action\<close> stores
  \<open>payload_json=payload\<close>: a payload with a \<open>password\<close> key is committed with it.
\<close>

theorem log_action_keeps_password_counterexample:
  "payload_json (snd (log_action initial_db 1 1000 ''login'' (Some 1) None None None
       (Some (JObj [(''password'', JStr ''hunter2'')])) None None))
     = Some (JObj [(''password'', JStr ''hunter2'')])
   \<and> map payload_json (audits (fst (log_action initial_db 1 1000 ''login'' (Some 1) None None
       None (Some (JObj [(''password'', JStr ''hunter2'')])) None None)))
     = [Some (JObj [(''password'', JStr ''hunter2'')])]"
  by (simp add: log_action_def initial_db_def Let_def)

text \<open>
  C5, as amended: \<open>log_action\<close> commits the payload of the caller as it is: the
  \<open>payload_json\<close> of the entry it returns is the payload argument, no key rejected or
  removed, and that entry is the row appended to the table.
\<close>

theorem log_action_payload_verbatim:
  "payload_json (snd (log_action d new_id now act uid rt rid ds payload ip agent)) = payload
   \<and> audits (fst (log_action d new_id now act uid rt rid ds payload ip agent))
       = audits d @ [snd (log_action d new_id now act uid rt rid ds payload ip agent)]"
  by (simp add: log_action_def Let_def)

text \<open>
  Where the class \<open>User\<close> has no attribute \<open>query\<close>, as in this repository, the first
  statement of \<open>get_audit_log\<close> raises and the answer is the status 500 for every
  caller.
\<close>

lemma get_audit_log_without_query:
  "get_audit_log None audit_query uid = Inl (ErrorOf (AttributeError ''User'' ''query''), 500)"
  by (simp add: get_audit_log_def)








end
